theory Spec2Isabelle
  imports Complex_Main
begin

section \<open>Numbers\<close>

text \<open>
  A JavaScript Number that the program stores is modelled by its mathematical value, a
  \<^typ>\<open>real\<close>: sums, differences and products are computed without rounding. The
  program stores finite numbers only. A quotient is the one place where it can leave the
  finite numbers (the divisor \<open>memory.total\<close> comes from the configuration), so the result
  of a division is a \<open>jsnum\<close>, which also has the two infinities and NaN. A zero divisor
  is taken as \<open>+0\<close>.
\<close>

datatype jsnum = Num real | PosInfinity | NegInfinity | NaN

definition js_divide :: "real \<Rightarrow> real \<Rightarrow> jsnum" where
  "js_divide a b =
     (if b \<noteq> 0 then Num (a / b)
      else if 0 < a then PosInfinity
      else if a < 0 then NegInfinity
      else NaN)"

text \<open>\<open>v * c\<close> for a finite factor \<open>c\<close>.\<close>

definition js_times :: "jsnum \<Rightarrow> real \<Rightarrow> jsnum" where
  "js_times v c =
     (case v of
        Num x \<Rightarrow> Num (x * c)
      | PosInfinity \<Rightarrow> (if 0 < c then PosInfinity else if c < 0 then NegInfinity else NaN)
      | NegInfinity \<Rightarrow> (if 0 < c then NegInfinity else if c < 0 then PosInfinity else NaN)
      | NaN \<Rightarrow> NaN)"

text \<open>\<open>v > c\<close> for a finite \<open>c\<close>: every comparison with NaN is false.\<close>

definition js_greater :: "jsnum \<Rightarrow> real \<Rightarrow> bool" where
  "js_greater v c =
     (case v of
        Num x \<Rightarrow> c < x
      | PosInfinity \<Rightarrow> True
      | NegInfinity \<Rightarrow> False
      | NaN \<Rightarrow> False)"

section \<open>Strings\<close>

text \<open>
  A string is a list of 8-bit characters. In a query, a character is a code unit from
  \<open>U+0000\<close> to \<open>U+00FF\<close>; this range is closed under \<open>toLowerCase\<close>, which maps
  \<open>A\<close>--\<open>Z\<close> and the capital letters \<open>U+00C0\<close>--\<open>U+00DE\<close> (without the
  multiplication sign \<open>U+00D7\<close>) to the code unit 32 above and leaves every other code
  unit of the range alone. Queries with code units from \<open>U+0100\<close> on are outside the
  model. The response templates are only ever concatenated; a character of a template
  that is outside ASCII is spelled as the bytes of its UTF-8 encoding, as in the source
  file, under the name of its code point.
\<close>

definition toLowerCase_char :: "char \<Rightarrow> char" where
  "toLowerCase_char c =
     (let n = (of_char c :: nat)
      in if (65 \<le> n \<and> n \<le> 90) \<or> (192 \<le> n \<and> n \<le> 222 \<and> n \<noteq> 215)
         then char_of (n + 32) else c)"

definition toLowerCase :: "string \<Rightarrow> string" where
  "toLowerCase s = map toLowerCase_char s"

fun startsWith :: "string \<Rightarrow> string \<Rightarrow> bool" where
  "startsWith s [] = True"
| "startsWith [] (c # t) = False"
| "startsWith (a # s) (c # t) = (a = c \<and> startsWith s t)"

text \<open>\<open>s.includes(t)\<close>: \<open>t\<close> occurs in \<open>s\<close> at some position.\<close>

fun js_includes :: "string \<Rightarrow> string \<Rightarrow> bool" where
  "js_includes [] t = startsWith [] t"
| "js_includes (a # s) t = (startsWith (a # s) t \<or> js_includes s t)"

definition DQUOTE :: string where "DQUOTE = [CHR 0x22]"
definition U_2022 :: string where "U_2022 = [CHR 0xE2, CHR 0x80, CHR 0xA2]"
definition U_26A0 :: string where "U_26A0 = [CHR 0xE2, CHR 0x9A, CHR 0xA0]"
definition U_FE0F :: string where "U_FE0F = [CHR 0xEF, CHR 0xB8, CHR 0x8F]"
definition U_2705 :: string where "U_2705 = [CHR 0xE2, CHR 0x9C, CHR 0x85]"
definition U_1F50D :: string where "U_1F50D = [CHR 0xF0, CHR 0x9F, CHR 0x94, CHR 0x8D]"
definition U_1F4DA :: string where "U_1F4DA = [CHR 0xF0, CHR 0x9F, CHR 0x93, CHR 0x9A]"
definition U_1F4BE :: string where "U_1F4BE = [CHR 0xF0, CHR 0x9F, CHR 0x92, CHR 0xBE]"
definition U_1F51D :: string where "U_1F51D = [CHR 0xF0, CHR 0x9F, CHR 0x94, CHR 0x9D]"
definition U_1F4BF :: string where "U_1F4BF = [CHR 0xF0, CHR 0x9F, CHR 0x92, CHR 0xBF]"
definition U_1F310 :: string where "U_1F310 = [CHR 0xF0, CHR 0x9F, CHR 0x8C, CHR 0x90]"
definition U_1F4A1 :: string where "U_1F4A1 = [CHR 0xF0, CHR 0x9F, CHR 0x92, CHR 0xA1]"

subsection \<open>Numbers as text\<close>

definition digit_char :: "nat \<Rightarrow> char" where
  "digit_char d = ''0123456789'' ! d"

text \<open>The decimal digits of a natural number, most significant first.\<close>

function digits :: "nat \<Rightarrow> string" where
  "digits n = (if n < 10 then [digit_char n] else digits (n div 10) @ [digit_char (n mod 10)])"
  by pat_completeness auto
termination
  by (relation "measure (\<lambda>n. n)") auto

declare digits.simps [simp del]

text \<open>
  The least number \<open>d\<close> of decimal places with \<open>y * 10 ^ d\<close> an integer, searched up
  to a bound.
\<close>

fun decimal_places :: "nat \<Rightarrow> real \<Rightarrow> nat" where
  "decimal_places 0 y = 0"
| "decimal_places (Suc fuel) y =
     (if real_of_int \<lfloor>y\<rfloor> = y then 0 else Suc (decimal_places fuel (y * 10)))"

text \<open>
  \<open>Number::toString\<close> of ECMAScript for a positive number: with \<open>s\<close> the \<open>k\<close>
  significant digits of the number and \<open>n\<close> the position of its decimal point, the text
  is plain digits, digits with a point, \<open>0.\<close> with leading zeros, or exponent notation.
  ECMAScript takes for \<open>s\<close> the shortest digit string that reads back as the same
  double; the model takes the exact decimal expansion. The two agree for every number
  with at most 15 significant decimal digits and at most 20 decimal places, the only
  ones the program prints this way (configuration constants, pids, counters).
\<close>

definition toString_positive :: "real \<Rightarrow> string" where
  "toString_positive y =
     (let d = decimal_places 20 y;
          ds = digits (nat \<lfloor>y * 10 ^ d\<rfloor>);
          s = rev (dropWhile (\<lambda>c. c = CHR ''0'') (rev ds));
          k = int (length s);
          n = int (length ds) - int d
      in if k \<le> n \<and> n \<le> 21 then s @ replicate (nat (n - k)) (CHR ''0'')
         else if 0 < n \<and> n \<le> 21 then take (nat n) s @ ''.'' @ drop (nat n) s
         else if - 6 < n \<and> n \<le> 0 then ''0.'' @ replicate (nat (- n)) (CHR ''0'') @ s
         else (let e = n - 1;
                   es = (if e < 0 then ''-'' else ''+'') @ digits (nat \<bar>e\<bar>)
               in if k = 1 then s @ ''e'' @ es
                  else take 1 s @ ''.'' @ drop 1 s @ ''e'' @ es))"

definition Number_toString :: "real \<Rightarrow> string" where
  "Number_toString x =
     (if x = 0 then ''0''
      else if x < 0 then ''-'' @ toString_positive (- x)
      else toString_positive x)"

text \<open>
  \<open>Number.prototype.toFixed\<close> with \<open>f\<close> fraction digits, as ECMAScript defines it on
  the mathematical value: the integer \<open>n\<close> with \<open>n / 10 ^ f\<close> nearest to the number, the
  larger one of two, written with a point before its last \<open>f\<close> digits.
\<close>

definition toFixed :: "real \<Rightarrow> nat \<Rightarrow> string" where
  "toFixed x f =
     (let s = (if x < 0 then ''-'' else '''');
          y = (if x < 0 then - x else x)
      in if y \<ge> 10 ^ 21 then s @ Number_toString y
         else (let n = nat \<lfloor>y * 10 ^ f + 1 / 2\<rfloor>;
                   m = digits n
               in if f \<noteq> 0
                  then (let k = length m;
                            m = (if k \<le> f then replicate (f + 1 - k) (CHR ''0'') @ m else m);
                            k = (if k \<le> f then f + 1 else k)
                        in s @ take (k - f) m @ ''.'' @ drop (k - f) m)
                  else s @ m))"

definition jsnum_toFixed :: "jsnum \<Rightarrow> nat \<Rightarrow> string" where
  "jsnum_toFixed v f =
     (case v of
        Num x \<Rightarrow> toFixed x f
      | PosInfinity \<Rightarrow> ''Infinity''
      | NegInfinity \<Rightarrow> ''-Infinity''
      | NaN \<Rightarrow> ''NaN'')"

text \<open>
  The Number that the text \<open>v.toFixed(f)\<close> spells, which is what a comparison of that
  text with a number converts it to.
\<close>

definition toFixed_Number :: "jsnum \<Rightarrow> nat \<Rightarrow> jsnum" where
  "toFixed_Number v f =
     (case v of
        Num x \<Rightarrow>
          (let y = (if x < 0 then - x else x)
           in if y \<ge> 10 ^ 21 then Num x
              else Num ((if x < 0 then - 1 else 1) * real_of_int \<lfloor>y * 10 ^ f + 1 / 2\<rfloor> / 10 ^ f))
      | PosInfinity \<Rightarrow> PosInfinity
      | NegInfinity \<Rightarrow> NegInfinity
      | NaN \<Rightarrow> NaN)"

section \<open>Configuration (config.js)\<close>

record monitoring_config =
  UPDATE_INTERVAL :: real
  ALERT_THRESHOLD_CPU :: real
  ALERT_THRESHOLD_MEMORY :: real
  MAX_PROCESSES_DISPLAY :: nat

record system_config =
  CPU_CORES :: real
  CPU_FREQUENCY :: real
  TOTAL_MEMORY :: real
  DISK_SIZE :: real

record config =
  MONITORING :: monitoring_config
  SYSTEM :: system_config
  PROCESS_NAMES :: "string list"

text \<open>The frozen object \<open>CONFIG\<close> as shipped.\<close>

definition CONFIG :: config where
  "CONFIG =
     \<lparr> MONITORING =
         \<lparr> UPDATE_INTERVAL = 2000,
           ALERT_THRESHOLD_CPU = 85,
           ALERT_THRESHOLD_MEMORY = 85,
           MAX_PROCESSES_DISPLAY = 8 \<rparr>,
       SYSTEM =
         \<lparr> CPU_CORES = 8,
           CPU_FREQUENCY = 3.5,
           TOTAL_MEMORY = 16,
           DISK_SIZE = 512 \<rparr>,
       PROCESS_NAMES =
         [''chrome.exe'', ''code.exe'', ''node.exe'', ''python.exe'', ''explorer.exe'',
          ''firefox.exe'', ''docker.exe'', ''postgres.exe'', ''mysql.exe'', ''nginx.exe'',
          ''java.exe'', ''teams.exe'', ''slack.exe'', ''spotify.exe'', ''system''] \<rparr>"

section \<open>The metrics snapshot (systemMonitor.js)\<close>

text \<open>
  One entry of the process table. The field \<open>state\<close> is read from a four-element array
  at a computed index; \<open>None\<close> is JavaScript's \<open>undefined\<close>, which an index outside the
  array yields.
\<close>

record process =
  proc_name :: string
  proc_pid :: int
  proc_cpu :: real
  proc_memory :: real
  proc_status :: string
  proc_state :: "string option"

record cpu_metrics =
  cpu_usage :: real
  cpu_cores :: real
  cpu_frequency :: real

record memory_metrics =
  mem_used :: real
  mem_total :: real
  mem_available :: real

record disk_metrics =
  disk_read :: real
  disk_write :: real
  disk_usage :: real

record network_metrics =
  net_sent :: real
  net_received :: real

record metrics =
  cpu :: cpu_metrics
  memory :: memory_metrics
  disk :: disk_metrics
  network :: network_metrics
  processes :: "process list"

text \<open>
  The constructor reads the configuration and builds the seed snapshot. Its body has no
  \<open>throw\<close> and no test of the values it reads.
\<close>

definition SystemMonitor :: "config \<Rightarrow> metrics" where
  "SystemMonitor cfg =
     \<lparr> cpu = \<lparr> cpu_usage = 35,
               cpu_cores = CPU_CORES (SYSTEM cfg),
               cpu_frequency = CPU_FREQUENCY (SYSTEM cfg) \<rparr>,
       memory = \<lparr> mem_used = 8.5,
                  mem_total = TOTAL_MEMORY (SYSTEM cfg),
                  mem_available = TOTAL_MEMORY (SYSTEM cfg) - 8.5 \<rparr>,
       disk = \<lparr> disk_read = 0, disk_write = 0, disk_usage = 45 \<rparr>,
       network = \<lparr> net_sent = 0, net_received = 0 \<rparr>,
       processes = [] \<rparr>"

text \<open>
  Construction as a fallible operation: \<open>Inl\<close> would be an exception thrown by
  \<open>new SystemMonitor()\<close>. The constructor throws nowhere, so the result is always \<open>Inr\<close>.
\<close>

datatype construction_error = ConfigurationError

definition new_SystemMonitor :: "config \<Rightarrow> construction_error + metrics" where
  "new_SystemMonitor cfg = Inr (SystemMonitor cfg)"

section \<open>Random draws\<close>

text \<open>
  \<open>Math.random()\<close> is the only source of nondeterminism. A run is described by the
  sequence \<open>rnd\<close> of the values that the successive calls return; every function that
  draws takes the number \<open>k\<close> of draws made so far and returns the new count with its
  result. \<open>Math.random()\<close> returns a number in \<open>[0, 1)\<close>.
\<close>

type_synonym rng = "nat \<Rightarrow> real"

definition unit_draws :: "rng \<Rightarrow> bool" where
  "unit_draws rnd = (\<forall>n. 0 \<le> rnd n \<and> rnd n < 1)"

definition Math_random :: "rng \<Rightarrow> nat \<Rightarrow> real \<times> nat" where
  "Math_random rnd k = (rnd k, k + 1)"

section \<open>Simulation step\<close>

definition states :: "string list" where
  "states = [''running'', ''ready'', ''waiting'', ''sleeping'']"

definition getRandomProcessState :: "rng \<Rightarrow> nat \<Rightarrow> string option \<times> nat" where
  "getRandomProcessState rnd k =
     (let (r, k1) = Math_random rnd k;
          i = \<lfloor>r * real (length states)\<rfloor>
      in ((if 0 \<le> i \<and> i < int (length states) then Some (states ! nat i) else None), k1))"

text \<open>
  The object literal that \<open>generateProcesses\<close> builds for one catalog name. Its fields
  are evaluated in the order written. The conditional for \<open>status\<close> calls
  \<open>Math.random()\<close> once in its test and, when that test fails, a second time in the
  test of the inner conditional.
\<close>

definition new_process :: "rng \<Rightarrow> nat \<Rightarrow> string \<Rightarrow> process \<times> nat" where
  "new_process rnd k name =
     (let (r1, k1) = Math_random rnd k;
          (r2, k2) = Math_random rnd k1;
          (r3, k3) = Math_random rnd k2;
          (r4, k4) = Math_random rnd k3;
          (st, k5) = (if r4 > 0.8 then (''high'', k4)
                      else (let (r5, k5) = Math_random rnd k4
                            in ((if r5 > 0.5 then ''medium'' else ''low''), k5)));
          (s, k6) = getRandomProcessState rnd k5
      in (\<lparr> proc_name = name,
             proc_pid = 1000 + \<lfloor>r1 * 9000\<rfloor>,
             proc_cpu = r2 * 25,
             proc_memory = r3 * 1024,
             proc_status = st,
             proc_state = s \<rparr>, k6))"

text \<open>\<open>CONFIG.PROCESS_NAMES.map(...)\<close>: the names are visited from first to last.\<close>

fun map_processes :: "rng \<Rightarrow> nat \<Rightarrow> string list \<Rightarrow> process list \<times> nat" where
  "map_processes rnd k [] = ([], k)"
| "map_processes rnd k (name # names) =
     (let (p, k1) = new_process rnd k name;
          (ps, k2) = map_processes rnd k1 names
      in (p # ps, k2))"

text \<open>
  \<open>sort((a, b) => b.cpu - a.cpu)\<close> orders by descending \<open>cpu\<close>; \<open>Array.prototype.sort\<close>
  is stable, as is \<^const>\<open>sort_key\<close>. \<open>slice(0, n)\<close> keeps the first \<open>n\<close> entries.
\<close>

definition generateProcesses :: "config \<Rightarrow> rng \<Rightarrow> nat \<Rightarrow> process list \<times> nat" where
  "generateProcesses cfg rnd k =
     (let (procs, k1) = map_processes rnd k (PROCESS_NAMES cfg)
      in (take (MAX_PROCESSES_DISPLAY (MONITORING cfg)) (sort_key (\<lambda>p. - proc_cpu p) procs), k1))"

definition updateMetrics :: "config \<Rightarrow> rng \<Rightarrow> metrics \<times> nat \<Rightarrow> metrics \<times> nat" where
  "updateMetrics cfg rnd s =
     (let (m, k) = s;
          (r1, k1) = Math_random rnd k;
          usage = max 5 (min 95 (cpu_usage (cpu m) + (r1 - 0.5) * 10));
          (r2, k2) = Math_random rnd k1;
          used = max 2 (min 14 (mem_used (memory m) + (r2 - 0.5) * 0.5));
          available = mem_total (memory m) - used;
          (r3, k3) = Math_random rnd k2;
          (r4, k4) = Math_random rnd k3;
          (r5, k5) = Math_random rnd k4;
          (r6, k6) = Math_random rnd k5;
          (procs, k7) = generateProcesses cfg rnd k6
      in (m \<lparr> cpu := (cpu m) \<lparr> cpu_usage := usage \<rparr>,
              memory := (memory m) \<lparr> mem_used := used, mem_available := available \<rparr>,
              disk := (disk m) \<lparr> disk_read := r3 * 150, disk_write := r4 * 100 \<rparr>,
              network := (network m) \<lparr> net_sent := r5 * 500, net_received := r6 * 800 \<rparr>,
              processes := procs \<rparr>, k7))"

text \<open>The snapshot after \<open>n\<close> calls of \<open>updateMetrics\<close> on a freshly constructed monitor.\<close>

fun ticks :: "config \<Rightarrow> rng \<Rightarrow> nat \<Rightarrow> metrics \<times> nat" where
  "ticks cfg rnd 0 = (SystemMonitor cfg, 0)"
| "ticks cfg rnd (Suc n) = updateMetrics cfg rnd (ticks cfg rnd n)"

definition getMetrics :: "metrics \<Rightarrow> metrics" where
  "getMetrics m = m"

section \<open>Alerts and lookups\<close>

record alert =
  alert_type :: string
  alert_severity :: string
  alert_message :: string

definition cpu_alert :: alert where
  "cpu_alert =
     \<lparr> alert_type = ''cpu'',
       alert_severity = ''high'',
       alert_message =
         U_26A0 @
         U_FE0F @
         '' High CPU usage detected! Consider closing unnecessary applications.'' \<rparr>"

definition memory_alert :: alert where
  "memory_alert =
     \<lparr> alert_type = ''memory'',
       alert_severity = ''high'',
       alert_message =
         U_26A0 @
         U_FE0F @
         '' Memory usage is critically high! System may slow down.'' \<rparr>"

definition checkAlerts :: "config \<Rightarrow> metrics \<Rightarrow> alert list" where
  "checkAlerts cfg m =
     (let alerts = [];
          alerts = (if cpu_usage (cpu m) > ALERT_THRESHOLD_CPU (MONITORING cfg)
                    then alerts @ [cpu_alert] else alerts);
          memoryPercent = js_times (js_divide (mem_used (memory m)) (mem_total (memory m))) 100;
          alerts = (if js_greater memoryPercent (ALERT_THRESHOLD_MEMORY (MONITORING cfg))
                    then alerts @ [memory_alert] else alerts)
      in alerts)"

text \<open>
  \<open>find\<close> returns the first entry that satisfies the test, or \<open>undefined\<close> (\<open>None\<close>).
  The method assigns nothing; it is modelled with the snapshot it leaves behind.
\<close>

definition getProcessByPID :: "metrics \<Rightarrow> int \<Rightarrow> process option \<times> metrics" where
  "getProcessByPID m pid = (List.find (\<lambda>proc. proc_pid proc = pid) (processes m), m)"

definition getContextSwitches :: "metrics \<Rightarrow> int" where
  "getContextSwitches m = \<lfloor>cpu_usage (cpu m) * 100\<rfloor>"

section \<open>The response engine (chat.js, \<open>generateResponse\<close>)\<close>

text \<open>
  \<open>generateResponse\<close> is a sequence of blocks, one per category of query. A block
  either returns a response or is left without one, and then the next block runs. Each
  block is a function to \<open>string option\<close>, \<open>None\<close> when the block returns nothing.
\<close>

definition cpu_status_response :: "metrics \<Rightarrow> string" where
  "cpu_status_response metrics =
     U_1F50D @
     '' <strong>Current CPU Status:</strong><br><br>\<newline>'' @
     ''                    '' @
     U_2022 @
     '' Usage: <strong>'' @
     toFixed (cpu_usage (cpu metrics)) 1 @
     ''%</strong><br>\<newline>'' @
     ''                    '' @
     U_2022 @
     '' Cores: '' @
     Number_toString (cpu_cores (cpu metrics)) @
     '' logical processors<br>\<newline>'' @
     ''                    '' @
     U_2022 @
     '' Frequency: '' @
     Number_toString (cpu_frequency (cpu metrics)) @
     '' GHz<br><br>\<newline>'' @
     ''                    '' @
     (if cpu_usage (cpu metrics) > 70
      then U_26A0 @ U_FE0F @ '' CPU usage is high. ''
      else U_2705 @ '' CPU usage is normal. '') @
     ''\<newline>'' @
     ''                    <br><br><strong>OS Theory:</strong> The CPU scheduler uses '' @
     ''algorithms like Round-Robin and Priority Scheduling to allocate processor time to '' @
     ''processes. Context switches occur approximately '' @
     Number_toString (real_of_int (getContextSwitches metrics)) @
     '' times per second at this load level.''"

definition cpu_theory_response :: "metrics \<Rightarrow> string" where
  "cpu_theory_response metrics =
     U_1F4DA @
     '' <strong>CPU & Process Management:</strong><br><br>\<newline>'' @
     ''                    The CPU is managed by the OS kernel's scheduler, which:<br>\<newline>'' @
     ''                    '' @
     U_2022 @
     '' Allocates time slices to processes (time-sharing)<br>\<newline>'' @
     ''                    '' @
     U_2022 @
     '' Handles context switching between processes<br>\<newline>'' @
     ''                    '' @
     U_2022 @
     '' Manages process states (Ready, Running, Waiting, Terminated)<br>\<newline>'' @
     ''                    '' @
     U_2022 @
     '' Uses scheduling algorithms (FCFS, SJF, Round-Robin, Priority)<br><br>\<newline>'' @
     ''                    <strong>Your System:</strong> With '' @
     Number_toString (cpu_cores (cpu metrics)) @
     '' cores, the OS can run '' @
     Number_toString (cpu_cores (cpu metrics)) @
     '' processes truly simultaneously using parallel processing.''"

definition cpu_queries :: "metrics \<Rightarrow> string \<Rightarrow> string option" where
  "cpu_queries metrics lowerMessage =
     (if js_includes lowerMessage ''cpu'' \<or> js_includes lowerMessage ''processor''
      then (if js_includes lowerMessage ''usage'' \<or> js_includes lowerMessage ''current''
            then Some (cpu_status_response metrics)
            else if js_includes lowerMessage ''explain'' \<or> js_includes lowerMessage ''what is''
            then Some (cpu_theory_response metrics)
            else None)
      else None)"

definition memory_status_response :: "metrics \<Rightarrow> string" where
  "memory_status_response metrics =
     (let percent = js_times (js_divide (mem_used (memory metrics)) (mem_total (memory metrics))) 100;
          memPercent = jsnum_toFixed percent 1;
          memPercentNumber = toFixed_Number percent 1
      in U_1F4BE @
         '' <strong>Memory Status:</strong><br><br>\<newline>'' @
         ''                    '' @
         U_2022 @
         '' Used: <strong>'' @
         toFixed (mem_used (memory metrics)) 2 @
         '' GB</strong> ('' @
         memPercent @
         ''%)<br>\<newline>'' @
         ''                    '' @
         U_2022 @
         '' Available: '' @
         toFixed (mem_available (memory metrics)) 2 @
         '' GB<br>\<newline>'' @
         ''                    '' @
         U_2022 @
         '' Total: '' @
         Number_toString (mem_total (memory metrics)) @
         '' GB<br><br>\<newline>'' @
         ''                    '' @
         (if js_greater memPercentNumber 80
          then U_26A0 @ U_FE0F @ '' Memory pressure detected! ''
          else U_2705 @ '' Memory levels are healthy. '') @
         ''\<newline>'' @
         ''                    <br><br><strong>OS Theory:</strong> The OS uses virtual memory '' @
         ''management with paging. Your system likely uses a page size of 4KB, and the Memory '' @
         ''Management Unit (MMU) handles address translation from virtual to physical addresses.'')"

definition virtual_memory_response :: string where
  "virtual_memory_response =
     U_1F4DA @
     '' <strong>Virtual Memory Management:</strong><br><br>\<newline>'' @
     ''                    Virtual memory is a memory management technique where:<br>\<newline>'' @
     ''                    '' @
     U_2022 @
     '' Each process has its own virtual address space<br>\<newline>'' @
     ''                    '' @
     U_2022 @
     '' The OS maps virtual addresses to physical RAM<br>\<newline>'' @
     ''                    '' @
     U_2022 @
     '' Pages can be swapped to disk when RAM is full<br>\<newline>'' @
     ''                    '' @
     U_2022 @
     '' Provides memory isolation between processes<br><br>\<newline>'' @
     ''                    <strong>Benefits:</strong><br>\<newline>'' @
     ''                    '' @
     U_2022 @
     '' Programs can use more memory than physically available<br>\<newline>'' @
     ''                    '' @
     U_2022 @
     '' Security through process isolation<br>\<newline>'' @
     ''                    '' @
     U_2022 @
     '' Efficient memory utilization through demand paging''"

definition memory_queries :: "metrics \<Rightarrow> string \<Rightarrow> string option" where
  "memory_queries metrics lowerMessage =
     (if js_includes lowerMessage ''memory'' \<or> js_includes lowerMessage ''ram''
      then (if js_includes lowerMessage ''usage'' \<or> js_includes lowerMessage ''current''
               \<or> js_includes lowerMessage ''show''
            then Some (memory_status_response metrics)
            else if js_includes lowerMessage ''virtual'' \<or> js_includes lowerMessage ''explain''
            then Some virtual_memory_response
            else None)
      else None)"

text \<open>The body of the \<open>forEach\<close> over the top processes, \<open>i\<close> counting from 0.\<close>

fun top_process_lines :: "nat \<Rightarrow> process list \<Rightarrow> string" where
  "top_process_lines i [] = ''''"
| "top_process_lines i (proc # procs) =
     (Number_toString (real (i + 1)) @
      ''. <strong>'' @
      proc_name proc @
      ''</strong><br>\<newline>'' @
      ''                        &nbsp;&nbsp;&nbsp;PID: '' @
      Number_toString (real_of_int (proc_pid proc)) @
      '' | CPU: '' @
      toFixed (proc_cpu proc) 1 @
      ''% | Memory: '' @
      toFixed (proc_memory proc) 0 @
      '' MB<br>'') @
     top_process_lines (Suc i) procs"

definition top_processes_response :: "metrics \<Rightarrow> string" where
  "top_processes_response metrics =
     (let topProcesses = take 5 (processes metrics)
      in U_1F51D @
         '' <strong>Top Resource-Consuming Processes:</strong><br><br>'' @
         top_process_lines 0 topProcesses @
         ''<br><strong>OS Theory:</strong> Each process has a Process Control Block (PCB) '' @
         ''containing its state, program counter, CPU registers, memory allocation, and I/O '' @
         ''status. The OS maintains these in a process table.'')"

definition process_theory_response :: "metrics \<Rightarrow> string" where
  "process_theory_response metrics =
     U_1F4DA @
     '' <strong>Process Management:</strong><br><br>\<newline>'' @
     ''                    A process is a program in execution. The OS manages processes '' @
     ''through:<br>\<newline>'' @
     ''                    '' @
     U_2022 @
     '' <strong>Process Creation:</strong> fork() and exec() system calls<br>\<newline>'' @
     ''                    '' @
     U_2022 @
     '' <strong>Process Scheduling:</strong> Deciding which process runs when<br>\<newline>'' @
     ''                    '' @
     U_2022 @
     '' <strong>Inter-Process Communication (IPC):</strong> Pipes, message queues, shared '' @
     ''memory<br>\<newline>'' @
     ''                    '' @
     U_2022 @
     '' <strong>Process Synchronization:</strong> Semaphores, mutexes, '' @
     ''monitors<br><br>\<newline>'' @
     ''                    Currently, your system is managing '' @
     Number_toString (real (length (processes metrics))) @
     ''+ active processes.''"

definition process_queries :: "metrics \<Rightarrow> string \<Rightarrow> string option" where
  "process_queries metrics lowerMessage =
     (if js_includes lowerMessage ''process'' \<or> js_includes lowerMessage ''application''
         \<or> js_includes lowerMessage ''top''
      then (if js_includes lowerMessage ''using'' \<or> js_includes lowerMessage ''consuming''
               \<or> js_includes lowerMessage ''most''
            then Some (top_processes_response metrics)
            else if js_includes lowerMessage ''explain'' \<or> js_includes lowerMessage ''what is''
            then Some (process_theory_response metrics)
            else None)
      else None)"

definition disk_response :: "metrics \<Rightarrow> string" where
  "disk_response metrics =
     (let diskTotal = disk_read (disk metrics) + disk_write (disk metrics)
      in U_1F4BF @
         '' <strong>Disk I/O Status:</strong><br><br>\<newline>'' @
         ''                '' @
         U_2022 @
         '' Read Speed: '' @
         toFixed (disk_read (disk metrics)) 1 @
         '' MB/s<br>\<newline>'' @
         ''                '' @
         U_2022 @
         '' Write Speed: '' @
         toFixed (disk_write (disk metrics)) 1 @
         '' MB/s<br>\<newline>'' @
         ''                '' @
         U_2022 @
         '' Total Activity: '' @
         toFixed diskTotal 1 @
         '' MB/s<br>\<newline>'' @
         ''                '' @
         U_2022 @
         '' Disk Usage: '' @
         Number_toString (disk_usage (disk metrics)) @
         ''%<br><br>\<newline>'' @
         ''                <strong>OS Theory:</strong> The I/O subsystem uses buffering, '' @
         ''caching, and scheduling algorithms (like SCAN or C-LOOK) to optimize disk '' @
         ''operations. Device drivers abstract hardware details, and the file system manages '' @
         ''data organization on disk.'')"

definition disk_queries :: "metrics \<Rightarrow> string \<Rightarrow> string option" where
  "disk_queries metrics lowerMessage =
     (if js_includes lowerMessage ''disk'' \<or> js_includes lowerMessage ''i/o''
         \<or> js_includes lowerMessage ''storage''
      then Some (disk_response metrics)
      else None)"

definition network_response :: "metrics \<Rightarrow> string" where
  "network_response metrics =
     (let networkTotal = net_sent (network metrics) + net_received (network metrics)
      in U_1F310 @
         '' <strong>Network Activity:</strong><br><br>\<newline>'' @
         ''                '' @
         U_2022 @
         '' Upload: '' @
         toFixed (net_sent (network metrics)) 0 @
         '' KB/s<br>\<newline>'' @
         ''                '' @
         U_2022 @
         '' Download: '' @
         toFixed (net_received (network metrics)) 0 @
         '' KB/s<br>\<newline>'' @
         ''                '' @
         U_2022 @
         '' Total: '' @
         toFixed networkTotal 0 @
         '' KB/s<br><br>\<newline>'' @
         ''                <strong>OS Theory:</strong> The OS network stack implements the '' @
         ''TCP/IP protocol suite, handling packet routing, socket management, and network '' @
         ''device drivers. System calls like socket(), bind(), listen(), and accept() enable '' @
         ''network communication.'')"

definition network_queries :: "metrics \<Rightarrow> string \<Rightarrow> string option" where
  "network_queries metrics lowerMessage =
     (if js_includes lowerMessage ''network'' \<or> js_includes lowerMessage ''internet''
      then Some (network_response metrics)
      else None)"

definition optimization_response :: "metrics \<Rightarrow> string" where
  "optimization_response metrics =
     (let recommendations =
            U_1F4A1 @
            '' <strong>Optimization Recommendations:</strong><br><br>'';
          recommendations =
            (if cpu_usage (cpu metrics) > 70
             then recommendations @
                  U_2022 @
                  '' <strong>CPU:</strong> High usage detected. Close unnecessary applications '' @
                  ''or consider upgrading to a faster processor.<br>''
             else recommendations);
          recommendations =
            (if js_greater (js_divide (mem_used (memory metrics)) (mem_total (memory metrics))) 0.7
             then recommendations @
                  U_2022 @
                  '' <strong>Memory:</strong> Consider closing browser tabs or adding more RAM. '' @
                  ''Enable virtual memory if not already active.<br>''
             else recommendations)
      in recommendations @
         U_2022 @
         '' <strong>General:</strong> Keep only essential startup programs, update drivers '' @
         ''regularly, and run disk cleanup.<br><br>\<newline>'' @
         ''                <strong>OS Theory:</strong> Modern operating systems use dynamic '' @
         ''priority adjustment and load balancing to optimize performance automatically.'')"

definition optimization_queries :: "metrics \<Rightarrow> string \<Rightarrow> string option" where
  "optimization_queries metrics lowerMessage =
     (if js_includes lowerMessage ''optimize'' \<or> js_includes lowerMessage ''improve''
         \<or> js_includes lowerMessage ''recommend''
      then Some (optimization_response metrics)
      else None)"

definition scheduling_response :: string where
  "scheduling_response =
     U_1F4DA @
     '' <strong>CPU Scheduling Algorithms:</strong><br><br>\<newline>'' @
     ''                '' @
     U_2022 @
     '' <strong>FCFS (First-Come-First-Serve):</strong> Simple but can cause convoy '' @
     ''effect<br>\<newline>'' @
     ''                '' @
     U_2022 @
     '' <strong>SJF (Shortest Job First):</strong> Optimal average waiting time<br>\<newline>'' @
     ''                '' @
     U_2022 @
     '' <strong>Round-Robin:</strong> Fair time-sharing with time quantum<br>\<newline>'' @
     ''                '' @
     U_2022 @
     '' <strong>Priority Scheduling:</strong> Based on process priority<br>\<newline>'' @
     ''                '' @
     U_2022 @
     '' <strong>Multilevel Queue:</strong> Different queues for different process '' @
     ''types<br><br>\<newline>'' @
     ''                Most modern OS use a combination of these algorithms for optimal '' @
     ''performance.''"

definition scheduling_queries :: "string \<Rightarrow> string option" where
  "scheduling_queries lowerMessage =
     (if js_includes lowerMessage ''schedul'' \<or> js_includes lowerMessage ''algorithm''
      then Some scheduling_response
      else None)"

definition deadlock_response :: string where
  "deadlock_response =
     U_1F4DA @
     '' <strong>Deadlock in OS:</strong><br><br>\<newline>'' @
     ''                Deadlock occurs when processes wait indefinitely. Four conditions must '' @
     ''hold:<br>\<newline>'' @
     ''                '' @
     U_2022 @
     '' <strong>Mutual Exclusion:</strong> Resources cannot be shared<br>\<newline>'' @
     ''                '' @
     U_2022 @
     '' <strong>Hold and Wait:</strong> Process holding resources requests more<br>\<newline>'' @
     ''                '' @
     U_2022 @
     '' <strong>No Preemption:</strong> Resources cannot be forcibly taken<br>\<newline>'' @
     ''                '' @
     U_2022 @
     '' <strong>Circular Wait:</strong> Circular chain of processes waiting<br><br>\<newline>'' @
     ''                <strong>Prevention:</strong> Break any one of these '' @
     ''conditions<br>\<newline>'' @
     ''                <strong>Detection:</strong> Use resource allocation graphs<br>\<newline>'' @
     ''                <strong>Recovery:</strong> Process termination or resource preemption''"

definition deadlock_queries :: "string \<Rightarrow> string option" where
  "deadlock_queries lowerMessage =
     (if js_includes lowerMessage ''deadlock'' then Some deadlock_response else None)"

definition file_system_response :: string where
  "file_system_response =
     U_1F4DA @
     '' <strong>File System Management:</strong><br><br>\<newline>'' @
     ''                File systems organize data on storage devices:<br>\<newline>'' @
     ''                '' @
     U_2022 @
     '' <strong>Structure:</strong> Directories (folders) and files<br>\<newline>'' @
     ''                '' @
     U_2022 @
     '' <strong>Allocation Methods:</strong> Contiguous, Linked, Indexed<br>\<newline>'' @
     ''                '' @
     U_2022 @
     '' <strong>Common Types:</strong> NTFS (Windows), ext4 (Linux), APFS (macOS)<br>\<newline>'' @
     ''                '' @
     U_2022 @
     '' <strong>Operations:</strong> Create, Read, Write, Delete, Seek<br><br>\<newline>'' @
     ''                The file system maintains metadata (permissions, timestamps, size) and '' @
     ''uses caching to improve performance.''"

definition file_system_queries :: "string \<Rightarrow> string option" where
  "file_system_queries lowerMessage =
     (if js_includes lowerMessage ''file system'' \<or> js_includes lowerMessage ''filesystem''
      then Some file_system_response
      else None)"

definition default_response :: string where
  "default_response =
     ''I can help you with:<br><br>\<newline>'' @
     ''            '' @
     U_2022 @
     '' <strong>Current Status:</strong> '' @
     DQUOTE @
     ''What is my CPU usage?'' @
     DQUOTE @
     '', '' @
     DQUOTE @
     ''Show memory usage'' @
     DQUOTE @
     ''<br>\<newline>'' @
     ''            '' @
     U_2022 @
     '' <strong>Process Info:</strong> '' @
     DQUOTE @
     ''Which processes are using most resources?'' @
     DQUOTE @
     ''<br>\<newline>'' @
     ''            '' @
     U_2022 @
     '' <strong>OS Concepts:</strong> '' @
     DQUOTE @
     ''Explain virtual memory'' @
     DQUOTE @
     '', '' @
     DQUOTE @
     ''What is process scheduling?'' @
     DQUOTE @
     ''<br>\<newline>'' @
     ''            '' @
     U_2022 @
     '' <strong>Optimization:</strong> '' @
     DQUOTE @
     ''How can I improve performance?'' @
     DQUOTE @
     ''<br><br>\<newline>'' @
     ''            Try asking about CPU, memory, processes, disk I/O, networking, or OS theory '' @
     ''concepts!''"

text \<open>
  The blocks in the order of the source. \<open>from_memory\<close> is the function body from the
  memory block on, and so forth: what runs once the blocks before have returned nothing.
\<close>

definition from_file_systems :: "string \<Rightarrow> string" where
  "from_file_systems lowerMessage =
     (case file_system_queries lowerMessage of Some r \<Rightarrow> r | None \<Rightarrow> default_response)"

definition from_deadlock :: "string \<Rightarrow> string" where
  "from_deadlock lowerMessage =
     (case deadlock_queries lowerMessage of Some r \<Rightarrow> r | None \<Rightarrow> from_file_systems lowerMessage)"

definition from_scheduling :: "string \<Rightarrow> string" where
  "from_scheduling lowerMessage =
     (case scheduling_queries lowerMessage of Some r \<Rightarrow> r | None \<Rightarrow> from_deadlock lowerMessage)"

definition from_optimization :: "metrics \<Rightarrow> string \<Rightarrow> string" where
  "from_optimization metrics lowerMessage =
     (case optimization_queries metrics lowerMessage of
        Some r \<Rightarrow> r | None \<Rightarrow> from_scheduling lowerMessage)"

definition from_network :: "metrics \<Rightarrow> string \<Rightarrow> string" where
  "from_network metrics lowerMessage =
     (case network_queries metrics lowerMessage of
        Some r \<Rightarrow> r | None \<Rightarrow> from_optimization metrics lowerMessage)"

definition from_disk :: "metrics \<Rightarrow> string \<Rightarrow> string" where
  "from_disk metrics lowerMessage =
     (case disk_queries metrics lowerMessage of
        Some r \<Rightarrow> r | None \<Rightarrow> from_network metrics lowerMessage)"

definition from_process :: "metrics \<Rightarrow> string \<Rightarrow> string" where
  "from_process metrics lowerMessage =
     (case process_queries metrics lowerMessage of
        Some r \<Rightarrow> r | None \<Rightarrow> from_disk metrics lowerMessage)"

definition from_memory :: "metrics \<Rightarrow> string \<Rightarrow> string" where
  "from_memory metrics lowerMessage =
     (case memory_queries metrics lowerMessage of
        Some r \<Rightarrow> r | None \<Rightarrow> from_process metrics lowerMessage)"

text \<open>
  \<open>generateResponse(userMessage)\<close>, with the snapshot of the controller's
  \<open>systemMonitor\<close> as the argument \<open>sm\<close>.
\<close>

definition generateResponse :: "metrics \<Rightarrow> string \<Rightarrow> string" where
  "generateResponse sm userMessage =
     (let lowerMessage = toLowerCase userMessage;
          metrics = getMetrics sm
      in case cpu_queries metrics lowerMessage of
           Some r \<Rightarrow> r
         | None \<Rightarrow> from_memory metrics lowerMessage)"

section \<open>Readings of the specification\<close>

text \<open>
  Two definitions that follow the words of the specification, not the code. The first
  is the specification's rule for the load tag: one draw, mapped through the thresholds
  0.8 and 0.5. The second is the configuration check that the specification asks the
  constructor to make.
\<close>

definition spec_loadTag :: "real \<Rightarrow> string" where
  "spec_loadTag d = (if d > 0.8 then ''high'' else if d > 0.5 then ''medium'' else ''low'')"

definition spec_valid_config :: "config \<Rightarrow> bool" where
  "spec_valid_config cfg =
     (0 < TOTAL_MEMORY (SYSTEM cfg) \<and> 0 < CPU_CORES (SYSTEM cfg) \<and>
      0 < ALERT_THRESHOLD_CPU (MONITORING cfg) \<and> 0 < ALERT_THRESHOLD_MEMORY (MONITORING cfg))"

section \<open>Concrete inputs\<close>

text \<open>Snapshots, configurations and draw sequences at which the theorems below are evaluated.\<close>

definition hot_snapshot :: metrics where
  "hot_snapshot =
     (SystemMonitor CONFIG)
       \<lparr> cpu := \<lparr> cpu_usage = 90, cpu_cores = 8, cpu_frequency = 3.5 \<rparr>,
         memory := \<lparr> mem_used = 14, mem_total = 16, mem_available = 2 \<rparr> \<rparr>"

definition sample_snapshot :: metrics where
  "sample_snapshot =
     (SystemMonitor CONFIG)
       \<lparr> processes :=
           [\<lparr> proc_name = ''node.exe'', proc_pid = 4711, proc_cpu = 12.5, proc_memory = 300,
               proc_status = ''low'', proc_state = Some ''ready'' \<rparr>,
            \<lparr> proc_name = ''system'', proc_pid = 1000, proc_cpu = 3, proc_memory = 80,
               proc_status = ''high'', proc_state = Some ''running'' \<rparr>] \<rparr>"

definition busy_snapshot :: metrics where
  "busy_snapshot =
     (SystemMonitor CONFIG) \<lparr> cpu := \<lparr> cpu_usage = 72.3, cpu_cores = 8, cpu_frequency = 3.5 \<rparr> \<rparr>"

definition zero_config :: config where
  "zero_config =
     CONFIG \<lparr> MONITORING := (MONITORING CONFIG) \<lparr> ALERT_THRESHOLD_CPU := 0,
                                                 ALERT_THRESHOLD_MEMORY := - 85 \<rparr>,
              SYSTEM := (SYSTEM CONFIG) \<lparr> CPU_CORES := - 8, TOTAL_MEMORY := 0 \<rparr> \<rparr>"

definition medium_draws :: rng where
  "medium_draws n = (if n = 3 then 0.3 else if n = 4 then 0.9 else 0)"

definition shared_pid_draws :: rng where
  "shared_pid_draws n = (if n mod 6 = 1 then real ((n div 6) mod 25) / 25 else 0)"

definition shared_pid_entry :: "string \<Rightarrow> real \<Rightarrow> process" where
  "shared_pid_entry name c =
     \<lparr> proc_name = name, proc_pid = 1000, proc_cpu = c, proc_memory = 0,
       proc_status = ''low'', proc_state = Some ''running'' \<rparr>"

definition shared_pid_snapshot :: metrics where
  "shared_pid_snapshot =
     (SystemMonitor CONFIG) \<lparr> processes := fst (generateProcesses CONFIG shared_pid_draws 0) \<rparr>"

section \<open>Response texts\<close>

text \<open>The texts that \<open>generateResponse\<close> can return for a snapshot.\<close>

definition templates :: "metrics \<Rightarrow> string set" where
  "templates metrics =
     {cpu_status_response metrics, cpu_theory_response metrics,
      memory_status_response metrics, virtual_memory_response,
      top_processes_response metrics, process_theory_response metrics,
      disk_response metrics, network_response metrics, optimization_response metrics,
      scheduling_response, deadlock_response, file_system_response, default_response}"

section \<open>Properties of the simulation step\<close>

subsection \<open>One step\<close>

lemma updateMetrics_cpu_usage:
  "cpu_usage (cpu (fst (updateMetrics cfg rnd (m, k)))) =
     max 5 (min 95 (cpu_usage (cpu m) + (rnd k - 0.5) * 10))"
  by (simp add: updateMetrics_def Math_random_def Let_def case_prod_beta)

lemma updateMetrics_mem_used:
  "mem_used (memory (fst (updateMetrics cfg rnd (m, k)))) =
     max 2 (min 14 (mem_used (memory m) + (rnd (k + 1) - 0.5) * 0.5))"
  by (simp add: updateMetrics_def Math_random_def Let_def case_prod_beta)

lemma updateMetrics_mem_available:
  "mem_available (memory (fst (updateMetrics cfg rnd s))) =
     mem_total (memory (fst s)) - mem_used (memory (fst (updateMetrics cfg rnd s)))"
  by (simp add: updateMetrics_def Math_random_def Let_def case_prod_beta)

lemma updateMetrics_mem_total:
  "mem_total (memory (fst (updateMetrics cfg rnd s))) = mem_total (memory (fst s))"
  by (simp add: updateMetrics_def Math_random_def Let_def case_prod_beta)

lemma updateMetrics_processes:
  "processes (fst (updateMetrics cfg rnd (m, k))) = fst (generateProcesses cfg rnd (k + 6))"
  by (simp add: updateMetrics_def Math_random_def Let_def case_prod_beta eval_nat_numeral)

lemma ticks_mem_total: "mem_total (memory (fst (ticks cfg rnd n))) = TOTAL_MEMORY (SYSTEM cfg)"
  by (induction n) (simp_all add: updateMetrics_mem_total SystemMonitor_def)

text \<open>
  Claim C1. After any number \<open>n\<close> of calls of \<open>updateMetrics\<close> on a freshly constructed
  monitor, and whatever values \<open>Math.random()\<close> returned, \<open>cpu.usage\<close> lies in
  \<open>[5, 95]\<close>, \<open>memory.used\<close> lies in \<open>[2, 14]\<close>, and \<open>memory.available\<close> is the
  configured total minus \<open>memory.used\<close>.
\<close>

theorem tick_bounds:
  "5 \<le> cpu_usage (cpu (fst (ticks cfg rnd n))) \<and>
   cpu_usage (cpu (fst (ticks cfg rnd n))) \<le> 95 \<and>
   2 \<le> mem_used (memory (fst (ticks cfg rnd n))) \<and>
   mem_used (memory (fst (ticks cfg rnd n))) \<le> 14 \<and>
   mem_available (memory (fst (ticks cfg rnd n))) =
     TOTAL_MEMORY (SYSTEM cfg) - mem_used (memory (fst (ticks cfg rnd n)))"
proof (cases n)
  case 0
  then show ?thesis by (simp add: SystemMonitor_def)
next
  case (Suc j)
  obtain m k where mk: "ticks cfg rnd j = (m, k)" by (cases "ticks cfg rnd j")
  have total: "mem_total (memory m) = TOTAL_MEMORY (SYSTEM cfg)"
    using ticks_mem_total [of cfg rnd j] mk by simp
  have avail: "mem_available (memory (fst (updateMetrics cfg rnd (m, k)))) =
      mem_total (memory m) - mem_used (memory (fst (updateMetrics cfg rnd (m, k))))"
    using updateMetrics_mem_available [of cfg rnd "(m, k)"] by simp
  show ?thesis
    unfolding Suc ticks.simps mk
    by (simp only: avail total) (simp add: updateMetrics_cpu_usage updateMetrics_mem_used)
qed

subsection \<open>Process table\<close>

lemma length_map_processes: "length (fst (map_processes rnd k names)) = length names"
  by (induction names arbitrary: k) (simp_all add: case_prod_beta)

lemma length_generateProcesses:
  "length (fst (generateProcesses cfg rnd k)) =
     min (length (PROCESS_NAMES cfg)) (MAX_PROCESSES_DISPLAY (MONITORING cfg))"
  by (simp add: generateProcesses_def case_prod_beta length_map_processes)

lemma descending_generateProcesses:
  "sorted_wrt (\<lambda>a b. proc_cpu a \<ge> proc_cpu b) (fst (generateProcesses cfg rnd k))"
proof -
  let ?procs = "fst (map_processes rnd k (PROCESS_NAMES cfg))"
  have "sorted (map (\<lambda>p. - proc_cpu p) (sort_key (\<lambda>p. - proc_cpu p) ?procs))"
    by (rule sorted_sort_key)
  then have "sorted_wrt (\<lambda>a b. proc_cpu a \<ge> proc_cpu b) (sort_key (\<lambda>p. - proc_cpu p) ?procs)"
    by (simp add: sorted_map)
  then show ?thesis
    by (simp add: generateProcesses_def case_prod_beta)
qed

text \<open>
  Claim C5. After a call of \<open>updateMetrics\<close>, from any snapshot and for any draws, the
  process table is in descending order of \<open>cpu\<close> and has as many entries as the
  smaller of the catalog size and \<open>MAX_PROCESSES_DISPLAY\<close>; with the shipped
  configuration that is 8.
\<close>

theorem processes_sorted_and_truncated:
  "sorted_wrt (\<lambda>a b. proc_cpu a \<ge> proc_cpu b) (processes (fst (updateMetrics cfg rnd s))) \<and>
   length (processes (fst (updateMetrics cfg rnd s))) =
     min (length (PROCESS_NAMES cfg)) (MAX_PROCESSES_DISPLAY (MONITORING cfg)) \<and>
   length (processes (fst (updateMetrics CONFIG rnd s))) = 8"
proof -
  obtain m k where s: "s = (m, k)" by (cases s)
  have "length (PROCESS_NAMES CONFIG) = 15" "MAX_PROCESSES_DISPLAY (MONITORING CONFIG) = 8"
    by (simp_all add: CONFIG_def)
  then show ?thesis
    unfolding s updateMetrics_processes
    by (simp add: descending_generateProcesses length_generateProcesses)
qed

section \<open>Alerts\<close>

lemma js_percent_finite:
  "b \<noteq> 0 \<Longrightarrow> js_greater (js_times (js_divide a b) 100) t = (t < a / b * 100)"
  by (simp add: js_divide_def js_times_def js_greater_def)

text \<open>
  Claim C2. For every snapshot, \<open>checkAlerts\<close> returns the cpu alerts followed by the
  memory alerts: one cpu alert exactly when \<open>cpu.usage\<close> exceeds the CPU threshold,
  whatever the memory fields hold, and one memory alert exactly when
  \<open>(memory.used / memory.total) * 100\<close> exceeds the memory threshold, whatever the CPU
  fields hold; never more than two alerts. The comparison is JavaScript's; for a total
  other than zero it is the comparison of the real quotient.
\<close>

theorem checkAlerts_cases:
  "checkAlerts cfg m =
     (if cpu_usage (cpu m) > ALERT_THRESHOLD_CPU (MONITORING cfg) then [cpu_alert] else []) @
     (if js_greater (js_times (js_divide (mem_used (memory m)) (mem_total (memory m))) 100)
           (ALERT_THRESHOLD_MEMORY (MONITORING cfg))
      then [memory_alert] else []) \<and>
   filter (\<lambda>a. alert_type a = ''cpu'') (checkAlerts cfg m) =
     (if cpu_usage (cpu m) > ALERT_THRESHOLD_CPU (MONITORING cfg) then [cpu_alert] else []) \<and>
   filter (\<lambda>a. alert_type a = ''memory'') (checkAlerts cfg m) =
     (if js_greater (js_times (js_divide (mem_used (memory m)) (mem_total (memory m))) 100)
           (ALERT_THRESHOLD_MEMORY (MONITORING cfg))
      then [memory_alert] else []) \<and>
   length (checkAlerts cfg m) \<le> 2 \<and>
   (mem_total (memory m) \<noteq> 0 \<longrightarrow>
      js_greater (js_times (js_divide (mem_used (memory m)) (mem_total (memory m))) 100)
          (ALERT_THRESHOLD_MEMORY (MONITORING cfg)) =
      (mem_used (memory m) / mem_total (memory m) * 100 > ALERT_THRESHOLD_MEMORY (MONITORING cfg)))"
  by (simp add: checkAlerts_def Let_def cpu_alert_def memory_alert_def js_percent_finite)

theorem checkAlerts_cases_witness:
  "ALERT_THRESHOLD_CPU (MONITORING CONFIG) = 85 \<and>
   ALERT_THRESHOLD_MEMORY (MONITORING CONFIG) = 85 \<and>
   mem_total (memory hot_snapshot) \<noteq> 0 \<and>
   checkAlerts CONFIG hot_snapshot = [cpu_alert, memory_alert] \<and>
   checkAlerts CONFIG (SystemMonitor CONFIG) = []"
  using checkAlerts_cases [of CONFIG hot_snapshot] checkAlerts_cases [of CONFIG "SystemMonitor CONFIG"]
  by (simp add: hot_snapshot_def SystemMonitor_def CONFIG_def)

section \<open>Lookup by pid\<close>

text \<open>
  Claim C9. \<open>getProcessByPID(pid)\<close> returns an entry of the table whose \<open>pid\<close> is the
  argument when the table has one, returns nothing (\<open>undefined\<close>) when no entry has
  that \<open>pid\<close>, and leaves the snapshot as it was.
\<close>

theorem getProcessByPID_found_or_not:
  "((\<exists>p \<in> set (processes m). proc_pid p = pid) \<longrightarrow>
      (\<exists>q. fst (getProcessByPID m pid) = Some q \<and> q \<in> set (processes m) \<and> proc_pid q = pid)) \<and>
   ((\<forall>p \<in> set (processes m). proc_pid p \<noteq> pid) \<longrightarrow> fst (getProcessByPID m pid) = None) \<and>
   snd (getProcessByPID m pid) = m"
proof (intro conjI impI)
  assume "\<exists>p \<in> set (processes m). proc_pid p = pid"
  then obtain q where "List.find (\<lambda>proc. proc_pid proc = pid) (processes m) = Some q"
    by (cases "List.find (\<lambda>proc. proc_pid proc = pid) (processes m)")
       (auto simp: find_None_iff)
  then show "\<exists>q. fst (getProcessByPID m pid) = Some q \<and> q \<in> set (processes m) \<and> proc_pid q = pid"
    by (auto simp: getProcessByPID_def find_Some_iff)
next
  assume "\<forall>p \<in> set (processes m). proc_pid p \<noteq> pid"
  then show "fst (getProcessByPID m pid) = None"
    by (auto simp: getProcessByPID_def find_None_iff)
next
  show "snd (getProcessByPID m pid) = m"
    by (simp add: getProcessByPID_def)
qed

theorem getProcessByPID_found_or_not_witness:
  "map proc_pid (processes sample_snapshot) = [4711, 1000] \<and>
   fst (getProcessByPID sample_snapshot 1000) =
     Some \<lparr> proc_name = ''system'', proc_pid = 1000, proc_cpu = 3, proc_memory = 80,
            proc_status = ''high'', proc_state = Some ''running'' \<rparr> \<and>
   fst (getProcessByPID sample_snapshot 2000) = None \<and>
   snd (getProcessByPID sample_snapshot 1000) = sample_snapshot"
  using getProcessByPID_found_or_not [of sample_snapshot 1000]
    getProcessByPID_found_or_not [of sample_snapshot 2000]
  by (simp add: sample_snapshot_def getProcessByPID_def)

section \<open>Generated entries\<close>

lemma new_process_status:
  "proc_status (fst (new_process rnd k name)) =
     (if rnd (k + 3) > 0.8 then ''high'' else if rnd (k + 4) > 0.5 then ''medium'' else ''low'')"
  by (simp add: new_process_def Math_random_def getRandomProcessState_def Let_def case_prod_beta
      eval_nat_numeral)

lemma new_process_draws:
  "snd (new_process rnd k name) = (if rnd (k + 3) > 0.8 then k + 5 else k + 6)"
  by (simp add: new_process_def Math_random_def getRandomProcessState_def Let_def case_prod_beta
      eval_nat_numeral)

text \<open>
  Claim C6, as the code has it. The \<open>status\<close> of a generated entry is decided by up to
  two successive draws, the fourth and fifth that the entry consumes: \<open>high\<close> when the
  first of them exceeds 0.8; otherwise a second, fresh draw is made and the tag is
  \<open>medium\<close> when that one exceeds 0.5, else \<open>low\<close>. The entry consumes five draws in
  the first case and six in the second.
\<close>

theorem status_two_draws:
  "proc_status (fst (new_process rnd k name)) =
     (if rnd (k + 3) > 0.8 then ''high'' else if rnd (k + 4) > 0.5 then ''medium'' else ''low'') \<and>
   snd (new_process rnd k name) = (if rnd (k + 3) > 0.8 then k + 5 else k + 6)"
  by (simp only: new_process_status new_process_draws)

text \<open>
  Claim C6 as stated, a tag that is the threshold image of one draw, fails: in the run
  below the entry is tagged \<open>medium\<close>, and not one of the six draws it consumes maps to
  \<open>medium\<close> under the specification's rule.
\<close>

theorem status_one_draw_counterexample:
  "proc_status (fst (new_process medium_draws 0 ''chrome.exe'')) = ''medium'' \<and>
   snd (new_process medium_draws 0 ''chrome.exe'') = 6 \<and>
   spec_loadTag (medium_draws 0) = ''low'' \<and>
   spec_loadTag (medium_draws 1) = ''low'' \<and>
   spec_loadTag (medium_draws 2) = ''low'' \<and>
   spec_loadTag (medium_draws 3) = ''low'' \<and>
   spec_loadTag (medium_draws 4) = ''high'' \<and>
   spec_loadTag (medium_draws 5) = ''low''"
  by (simp add: new_process_status new_process_draws medium_draws_def spec_loadTag_def)

section \<open>Construction\<close>

text \<open>
  Claim C7 as stated fails: with a zero total memory, a negative core count, a zero and
  a negative threshold, construction still produces a monitor.
\<close>

theorem construction_unvalidated_counterexample:
  "\<not> spec_valid_config zero_config \<and>
   new_SystemMonitor zero_config =
     Inr \<lparr> cpu = \<lparr> cpu_usage = 35, cpu_cores = - 8, cpu_frequency = 3.5 \<rparr>,
           memory = \<lparr> mem_used = 8.5, mem_total = 0, mem_available = - 8.5 \<rparr>,
           disk = \<lparr> disk_read = 0, disk_write = 0, disk_usage = 45 \<rparr>,
           network = \<lparr> net_sent = 0, net_received = 0 \<rparr>,
           processes = [] \<rparr>"
  by (simp add: spec_valid_config_def zero_config_def new_SystemMonitor_def SystemMonitor_def CONFIG_def)

text \<open>
  Claim C7, as the code has it. The constructor checks nothing: for every configuration
  it produces a monitor, whose snapshot holds the seed values and the configured core
  count, frequency and total memory as they are.
\<close>

theorem construction_never_fails:
  "\<exists>m. new_SystemMonitor cfg = Inr m \<and>
       cpu_usage (cpu m) = 35 \<and>
       cpu_cores (cpu m) = CPU_CORES (SYSTEM cfg) \<and>
       cpu_frequency (cpu m) = CPU_FREQUENCY (SYSTEM cfg) \<and>
       mem_used (memory m) = 8.5 \<and>
       mem_total (memory m) = TOTAL_MEMORY (SYSTEM cfg) \<and>
       mem_available (memory m) = TOTAL_MEMORY (SYSTEM cfg) - 8.5 \<and>
       processes m = []"
  by (simp add: new_SystemMonitor_def SystemMonitor_def)

section \<open>Pids of a generated table\<close>

lemma new_process_pid: "proc_pid (fst (new_process rnd k name)) = 1000 + \<lfloor>rnd k * 9000\<rfloor>"
  by (simp add: new_process_def Math_random_def getRandomProcessState_def Let_def case_prod_beta)

lemma pid_in_range:
  assumes "0 \<le> r" and "r < 1"
  shows "1000 \<le> 1000 + \<lfloor>r * 9000\<rfloor> \<and> 1000 + \<lfloor>r * 9000\<rfloor> \<le> (9999::int)"
proof -
  have "0 \<le> \<lfloor>r * 9000\<rfloor>" using assms by simp
  moreover have "\<lfloor>r * 9000\<rfloor> < 9000" using assms by (simp add: floor_less_iff)
  ultimately show ?thesis by simp
qed

lemma map_processes_pids:
  "unit_draws rnd \<Longrightarrow> p \<in> set (fst (map_processes rnd k names)) \<Longrightarrow>
     1000 \<le> proc_pid p \<and> proc_pid p \<le> 9999"
proof (induction names arbitrary: k)
  case Nil
  then show ?case by simp
next
  case (Cons name names)
  from Cons.prems(2) consider "p = fst (new_process rnd k name)"
    | "p \<in> set (fst (map_processes rnd (snd (new_process rnd k name)) names))"
    by (auto simp: case_prod_beta)
  then show ?case
  proof cases
    case 1
    from Cons.prems(1) have "0 \<le> rnd k" "rnd k < 1" by (simp_all add: unit_draws_def)
    then show ?thesis unfolding 1 new_process_pid by (rule pid_in_range)
  next
    case 2
    then show ?thesis using Cons.IH Cons.prems(1) by blast
  qed
qed

lemma set_generateProcesses:
  "set (fst (generateProcesses cfg rnd k)) \<subseteq> set (fst (map_processes rnd k (PROCESS_NAMES cfg)))"
proof -
  have "set (take n (sort_key f xs)) \<subseteq> set xs" for n and f :: "process \<Rightarrow> real" and xs
    using set_take_subset [of n "sort_key f xs"] by simp
  then show ?thesis by (simp add: generateProcesses_def case_prod_beta)
qed

lemma first_match_is_greatest:
  assumes sorted: "sorted_wrt (\<lambda>a b. proc_cpu a \<ge> proc_cpu b) t"
    and found: "List.find (\<lambda>proc. proc_pid proc = pid) t = Some q"
  shows "(\<exists>i < length t. t ! i = q \<and> proc_pid q = pid \<and> (\<forall>j < i. proc_pid (t ! j) \<noteq> pid)) \<and>
         (\<forall>p \<in> set t. proc_pid p = pid \<longrightarrow> proc_cpu p \<le> proc_cpu q)"
proof -
  from found obtain i where i: "i < length t" "proc_pid (t ! i) = pid" "q = t ! i"
      "\<forall>j < i. proc_pid (t ! j) \<noteq> pid"
    by (auto simp: find_Some_iff)
  have "proc_cpu p \<le> proc_cpu q" if "p \<in> set t" "proc_pid p = pid" for p
  proof -
    from that(1) obtain j where j: "j < length t" "t ! j = p" by (auto simp: in_set_conv_nth)
    with that(2) i(4) have "\<not> j < i" by auto
    then consider "j = i" | "i < j" by linarith
    then show ?thesis
    proof cases
      case 1
      with j i(3) show ?thesis by simp
    next
      case 2
      have "proc_cpu (t ! i) \<ge> proc_cpu (t ! j)"
        using sorted_wrt_nth_less [OF sorted 2 j(1)] .
      with j i(3) show ?thesis by simp
    qed
  qed
  with i show ?thesis by auto
qed

lemma new_process_eval:
  "new_process rnd k name =
     (\<lparr> proc_name = name,
        proc_pid = 1000 + \<lfloor>rnd k * 9000\<rfloor>,
        proc_cpu = rnd (k + 1) * 25,
        proc_memory = rnd (k + 2) * 1024,
        proc_status =
          (if rnd (k + 3) > 0.8 then ''high''
           else if rnd (k + 4) > 0.5 then ''medium'' else ''low''),
        proc_state =
          fst (getRandomProcessState rnd (if rnd (k + 3) > 0.8 then k + 4 else k + 5)) \<rparr>,
      if rnd (k + 3) > 0.8 then k + 5 else k + 6)"
  by (simp add: new_process_def Math_random_def getRandomProcessState_def Let_def case_prod_beta
      eval_nat_numeral)

lemma unit_draws_shared: "unit_draws shared_pid_draws"
proof -
  have "real (a mod 25) / 25 < 1" for a :: nat
  proof -
    have "a mod 25 < 25" by simp
    then have "real (a mod 25) < 25" by linarith
    then show ?thesis by simp
  qed
  then show ?thesis by (simp add: unit_draws_def shared_pid_draws_def)
qed

lemma fst_map_processes_Cons:
  "fst (map_processes rnd k (name # names)) =
     fst (new_process rnd k name) # fst (map_processes rnd (snd (new_process rnd k name)) names)"
  by (simp add: case_prod_beta)

lemma fst_generateProcesses:
  "fst (generateProcesses cfg rnd k) =
     take (MAX_PROCESSES_DISPLAY (MONITORING cfg))
       (sort_key (\<lambda>p. - proc_cpu p) (fst (map_processes rnd k (PROCESS_NAMES cfg))))"
  by (simp add: generateProcesses_def case_prod_beta)

lemma shared_pid_table:
  "fst (generateProcesses CONFIG shared_pid_draws 0) =
     [shared_pid_entry ''system'' 14, shared_pid_entry ''spotify.exe'' 13,
      shared_pid_entry ''slack.exe'' 12, shared_pid_entry ''teams.exe'' 11,
      shared_pid_entry ''java.exe'' 10, shared_pid_entry ''nginx.exe'' 9,
      shared_pid_entry ''mysql.exe'' 8, shared_pid_entry ''postgres.exe'' 7]"
  by (simp add: fst_generateProcesses fst_map_processes_Cons CONFIG_def new_process_eval
      shared_pid_draws_def getRandomProcessState_def Math_random_def states_def
      shared_pid_entry_def del: map_processes.simps(2))

text \<open>
  Claim C10. The pid of an entry is computed from one draw of its own; with draws in
  \<open>[0, 1)\<close> every pid of a generated table lies in \<open>[1000, 9999]\<close>; some draws give a
  table in which pids repeat; and whenever
  \<open>getProcessByPID\<close> finds an entry in a generated table, it is the first entry of the
  table with that pid, and no entry with that pid has a greater \<open>cpu\<close>.
\<close>

theorem pids_may_repeat:
  "proc_pid (fst (new_process rnd k name)) = 1000 + \<lfloor>rnd k * 9000\<rfloor> \<and>
   (unit_draws rnd \<longrightarrow>
      (\<forall>p \<in> set (fst (generateProcesses cfg rnd k)). 1000 \<le> proc_pid p \<and> proc_pid p \<le> 9999)) \<and>
   (\<exists>rnd'. unit_draws rnd' \<and>
      \<not> distinct (map proc_pid (fst (generateProcesses CONFIG rnd' 0)))) \<and>
   (processes m = fst (generateProcesses cfg rnd k) \<longrightarrow>
    fst (getProcessByPID m pid) = Some q \<longrightarrow>
      (\<exists>i < length (processes m). processes m ! i = q \<and> proc_pid q = pid \<and>
         (\<forall>j < i. proc_pid (processes m ! j) \<noteq> pid)) \<and>
      (\<forall>p \<in> set (processes m). proc_pid p = pid \<longrightarrow> proc_cpu p \<le> proc_cpu q))"
proof (intro conjI impI)
  show "proc_pid (fst (new_process rnd k name)) = 1000 + \<lfloor>rnd k * 9000\<rfloor>"
    by (rule new_process_pid)
next
  assume "unit_draws rnd"
  then show "\<forall>p \<in> set (fst (generateProcesses cfg rnd k)). 1000 \<le> proc_pid p \<and> proc_pid p \<le> 9999"
    using set_generateProcesses [of cfg rnd k] map_processes_pids [of rnd _ k "PROCESS_NAMES cfg"]
    by blast
next
  have "\<not> distinct (map proc_pid (fst (generateProcesses CONFIG shared_pid_draws 0)))"
    by (simp add: shared_pid_table shared_pid_entry_def)
  with unit_draws_shared
  show "\<exists>rnd'. unit_draws rnd' \<and> \<not> distinct (map proc_pid (fst (generateProcesses CONFIG rnd' 0)))"
    by blast
next
  assume table: "processes m = fst (generateProcesses cfg rnd k)"
    and found: "fst (getProcessByPID m pid) = Some q"
  have "sorted_wrt (\<lambda>a b. proc_cpu a \<ge> proc_cpu b) (processes m)"
    unfolding table by (rule descending_generateProcesses)
  moreover from found have "List.find (\<lambda>proc. proc_pid proc = pid) (processes m) = Some q"
    by (simp add: getProcessByPID_def)
  ultimately have *: "(\<exists>i < length (processes m). processes m ! i = q \<and> proc_pid q = pid \<and>
         (\<forall>j < i. proc_pid (processes m ! j) \<noteq> pid)) \<and>
      (\<forall>p \<in> set (processes m). proc_pid p = pid \<longrightarrow> proc_cpu p \<le> proc_cpu q)"
    by (rule first_match_is_greatest)
  from * show "\<exists>i < length (processes m). processes m ! i = q \<and> proc_pid q = pid \<and>
         (\<forall>j < i. proc_pid (processes m ! j) \<noteq> pid)" by (rule conjunct1)
  from * show "\<forall>p \<in> set (processes m). proc_pid p = pid \<longrightarrow> proc_cpu p \<le> proc_cpu q"
    by (rule conjunct2)
qed

theorem pids_may_repeat_witness:
  "unit_draws shared_pid_draws \<and>
   processes shared_pid_snapshot = fst (generateProcesses CONFIG shared_pid_draws 0) \<and>
   map proc_pid (processes shared_pid_snapshot) = [1000, 1000, 1000, 1000, 1000, 1000, 1000, 1000] \<and>
   fst (getProcessByPID shared_pid_snapshot 1000) = Some (shared_pid_entry ''system'' 14) \<and>
   Max (proc_cpu ` set (processes shared_pid_snapshot)) \<le> 14"
proof -
  have table: "processes shared_pid_snapshot = fst (generateProcesses CONFIG shared_pid_draws 0)"
    by (simp add: shared_pid_snapshot_def)
  have found: "fst (getProcessByPID shared_pid_snapshot 1000) = Some (shared_pid_entry ''system'' 14)"
    by (simp add: getProcessByPID_def table shared_pid_table) (simp add: shared_pid_entry_def)
  have cpu: "proc_cpu (shared_pid_entry ''system'' 14) = 14"
    by (simp add: shared_pid_entry_def)
  have pids: "map proc_pid (processes shared_pid_snapshot) =
      [1000, 1000, 1000, 1000, 1000, 1000, 1000, 1000]"
    by (simp add: table shared_pid_table shared_pid_entry_def)
  from pids_may_repeat [of shared_pid_draws 0 _ CONFIG shared_pid_snapshot 1000
      "shared_pid_entry ''system'' 14"] table found
  have "\<forall>p \<in> set (processes shared_pid_snapshot). proc_pid p = 1000 \<longrightarrow>
      proc_cpu p \<le> proc_cpu (shared_pid_entry ''system'' 14)"
    by blast
  moreover have "proc_pid p = 1000" if "p \<in> set (processes shared_pid_snapshot)" for p
  proof -
    from that have "proc_pid p \<in> set (map proc_pid (processes shared_pid_snapshot))"
      by simp
    then show ?thesis unfolding pids by simp
  qed
  ultimately have "\<forall>c \<in> proc_cpu ` set (processes shared_pid_snapshot). c \<le> 14"
    unfolding cpu by blast
  moreover from pids have "proc_cpu ` set (processes shared_pid_snapshot) \<noteq> {}"
    by auto
  ultimately have "Max (proc_cpu ` set (processes shared_pid_snapshot)) \<le> 14"
    by simp
  with unit_draws_shared table found pids show ?thesis
    by simp
qed

section \<open>Responses\<close>

lemma startsWith_iff: "startsWith s t \<longleftrightarrow> (\<exists>b. s = t @ b)"
  by (induction s t rule: startsWith.induct) auto

lemma js_includes_iff: "js_includes s t \<longleftrightarrow> (\<exists>a b. s = a @ t @ b)"
proof (induction s)
  case Nil
  then show ?case by (cases t) simp_all
next
  case (Cons x s)
  have "(\<exists>a b. x # s = a @ t @ b) \<longleftrightarrow> (\<exists>b. x # s = t @ b) \<or> (\<exists>a b. s = a @ t @ b)"
    by (auto simp: Cons_eq_append_conv)
  with Cons show ?case by (simp add: startsWith_iff)
qed

lemma js_includes_empty [simp]: "js_includes [] (c # t) = False"
  by simp

lemma toLowerCase_empty: "toLowerCase [] = []"
  by (simp add: toLowerCase_def)

lemma from_file_systems_template: "from_file_systems l \<in> templates m"
  by (simp add: from_file_systems_def file_system_queries_def templates_def)

lemma from_deadlock_template: "from_deadlock l \<in> templates m"
  using from_file_systems_template [of l m]
  by (simp add: from_deadlock_def deadlock_queries_def) (simp add: templates_def)

lemma from_scheduling_template: "from_scheduling l \<in> templates m"
  using from_deadlock_template [of l m]
  by (simp add: from_scheduling_def scheduling_queries_def) (simp add: templates_def)

lemma from_optimization_template: "from_optimization m l \<in> templates m"
  using from_scheduling_template [of l m]
  by (simp add: from_optimization_def optimization_queries_def) (simp add: templates_def)

lemma from_network_template: "from_network m l \<in> templates m"
  using from_optimization_template [of m l]
  by (simp add: from_network_def network_queries_def) (simp add: templates_def)

lemma from_disk_template: "from_disk m l \<in> templates m"
  using from_network_template [of m l]
  by (simp add: from_disk_def disk_queries_def) (simp add: templates_def)

lemma from_process_template: "from_process m l \<in> templates m"
  using from_disk_template [of m l]
  by (simp add: from_process_def process_queries_def) (simp add: templates_def)

lemma from_memory_template: "from_memory m l \<in> templates m"
  using from_process_template [of m l]
  by (simp add: from_memory_def memory_queries_def) (simp add: templates_def)

text \<open>
  Claim C4. \<open>generateResponse\<close> answers every query on every snapshot: its body calls
  nothing that can throw on a string and a snapshot of numbers, so the model has no
  error value, and the result is always one of the thirteen response texts. For the
  empty query it is the default text, which does not depend on the snapshot.
\<close>

theorem generateResponse_total:
  "generateResponse sm [] = default_response \<and> generateResponse sm q \<in> templates sm"
proof
  show "generateResponse sm [] = default_response"
    by (simp add: generateResponse_def toLowerCase_empty getMetrics_def cpu_queries_def
        from_memory_def memory_queries_def from_process_def process_queries_def
        from_disk_def disk_queries_def from_network_def network_queries_def
        from_optimization_def optimization_queries_def from_scheduling_def scheduling_queries_def
        from_deadlock_def deadlock_queries_def from_file_systems_def file_system_queries_def)
  show "generateResponse sm q \<in> templates sm"
  proof (cases "cpu_queries sm (toLowerCase q)")
    case None
    then have "generateResponse sm q = from_memory sm (toLowerCase q)"
      by (simp add: generateResponse_def getMetrics_def)
    then show ?thesis by (simp add: from_memory_template)
  next
    case (Some r)
    then have "r = cpu_status_response sm \<or> r = cpu_theory_response sm"
      by (auto simp: cpu_queries_def split: if_splits)
    moreover from Some have "generateResponse sm q = r"
      by (simp add: generateResponse_def getMetrics_def)
    ultimately show ?thesis by (auto simp: templates_def)
  qed
qed

text \<open>
  Claim C3. When the lower-cased query contains \<open>cpu\<close> or \<open>processor\<close> but none of
  \<open>usage\<close>, \<open>current\<close>, \<open>explain\<close>, \<open>what is\<close>, the CPU block returns nothing and
  the response is that of the later blocks, tried in the order memory, process, disk,
  network, optimization, scheduling, deadlock, file system; when none of them has a
  response, it is the default text.
\<close>

theorem cpu_fall_through:
  assumes "js_includes (toLowerCase q) ''cpu'' \<or> js_includes (toLowerCase q) ''processor''"
    and "\<not> js_includes (toLowerCase q) ''usage''"
    and "\<not> js_includes (toLowerCase q) ''current''"
    and "\<not> js_includes (toLowerCase q) ''explain''"
    and "\<not> js_includes (toLowerCase q) ''what is''"
  shows "cpu_queries sm (toLowerCase q) = None \<and>
    generateResponse sm q =
      (case memory_queries sm (toLowerCase q) of Some r \<Rightarrow> r | None \<Rightarrow>
       (case process_queries sm (toLowerCase q) of Some r \<Rightarrow> r | None \<Rightarrow>
       (case disk_queries sm (toLowerCase q) of Some r \<Rightarrow> r | None \<Rightarrow>
       (case network_queries sm (toLowerCase q) of Some r \<Rightarrow> r | None \<Rightarrow>
       (case optimization_queries sm (toLowerCase q) of Some r \<Rightarrow> r | None \<Rightarrow>
       (case scheduling_queries (toLowerCase q) of Some r \<Rightarrow> r | None \<Rightarrow>
       (case deadlock_queries (toLowerCase q) of Some r \<Rightarrow> r | None \<Rightarrow>
       (case file_system_queries (toLowerCase q) of Some r \<Rightarrow> r | None \<Rightarrow>
       default_response)))))))) \<and>
    (memory_queries sm (toLowerCase q) = None \<and> process_queries sm (toLowerCase q) = None \<and>
     disk_queries sm (toLowerCase q) = None \<and> network_queries sm (toLowerCase q) = None \<and>
     optimization_queries sm (toLowerCase q) = None \<and> scheduling_queries (toLowerCase q) = None \<and>
     deadlock_queries (toLowerCase q) = None \<and> file_system_queries (toLowerCase q) = None
     \<longrightarrow> generateResponse sm q = default_response)"
proof -
  have none: "cpu_queries sm (toLowerCase q) = None"
    using assms by (simp add: cpu_queries_def)
  have chain: "generateResponse sm q =
      (case memory_queries sm (toLowerCase q) of Some r \<Rightarrow> r | None \<Rightarrow>
       (case process_queries sm (toLowerCase q) of Some r \<Rightarrow> r | None \<Rightarrow>
       (case disk_queries sm (toLowerCase q) of Some r \<Rightarrow> r | None \<Rightarrow>
       (case network_queries sm (toLowerCase q) of Some r \<Rightarrow> r | None \<Rightarrow>
       (case optimization_queries sm (toLowerCase q) of Some r \<Rightarrow> r | None \<Rightarrow>
       (case scheduling_queries (toLowerCase q) of Some r \<Rightarrow> r | None \<Rightarrow>
       (case deadlock_queries (toLowerCase q) of Some r \<Rightarrow> r | None \<Rightarrow>
       (case file_system_queries (toLowerCase q) of Some r \<Rightarrow> r | None \<Rightarrow>
       default_response))))))))"
    unfolding generateResponse_def getMetrics_def Let_def none from_memory_def from_process_def
      from_disk_def from_network_def from_optimization_def from_scheduling_def
      from_deadlock_def from_file_systems_def
    by simp
  from none chain show ?thesis by simp
qed

lemma lower_fast: "toLowerCase ''Is my CPU fast?'' = ''is my cpu fast?''"
  by code_simp

lemma lower_net: "toLowerCase ''CPU and network'' = ''cpu and network''"
  by code_simp

theorem cpu_fall_through_witness:
  "js_includes (toLowerCase ''Is my CPU fast?'') ''cpu'' \<and>
   \<not> js_includes (toLowerCase ''Is my CPU fast?'') ''usage'' \<and>
   \<not> js_includes (toLowerCase ''Is my CPU fast?'') ''current'' \<and>
   \<not> js_includes (toLowerCase ''Is my CPU fast?'') ''explain'' \<and>
   \<not> js_includes (toLowerCase ''Is my CPU fast?'') ''what is'' \<and>
   generateResponse (SystemMonitor CONFIG) ''Is my CPU fast?'' = default_response \<and>
   js_includes (toLowerCase ''CPU and network'') ''cpu'' \<and>
   \<not> js_includes (toLowerCase ''CPU and network'') ''usage'' \<and>
   \<not> js_includes (toLowerCase ''CPU and network'') ''current'' \<and>
   \<not> js_includes (toLowerCase ''CPU and network'') ''explain'' \<and>
   \<not> js_includes (toLowerCase ''CPU and network'') ''what is'' \<and>
   generateResponse (SystemMonitor CONFIG) ''CPU and network'' =
     network_response (SystemMonitor CONFIG)"
proof -
  have fast: "js_includes (toLowerCase ''Is my CPU fast?'') ''cpu''"
    "\<not> js_includes (toLowerCase ''Is my CPU fast?'') ''usage''"
    "\<not> js_includes (toLowerCase ''Is my CPU fast?'') ''current''"
    "\<not> js_includes (toLowerCase ''Is my CPU fast?'') ''explain''"
    "\<not> js_includes (toLowerCase ''Is my CPU fast?'') ''what is''"
    unfolding lower_fast by simp_all
  have net: "js_includes (toLowerCase ''CPU and network'') ''cpu''"
    "\<not> js_includes (toLowerCase ''CPU and network'') ''usage''"
    "\<not> js_includes (toLowerCase ''CPU and network'') ''current''"
    "\<not> js_includes (toLowerCase ''CPU and network'') ''explain''"
    "\<not> js_includes (toLowerCase ''CPU and network'') ''what is''"
    unfolding lower_net by simp_all
  have "generateResponse (SystemMonitor CONFIG) ''Is my CPU fast?'' = default_response"
    using cpu_fall_through [OF disjI1 [OF fast(1)] fast(2-5), of "SystemMonitor CONFIG"]
    unfolding lower_fast
    by (simp add: memory_queries_def process_queries_def disk_queries_def network_queries_def
        optimization_queries_def scheduling_queries_def deadlock_queries_def
        file_system_queries_def)
  moreover
  have "generateResponse (SystemMonitor CONFIG) ''CPU and network'' =
      network_response (SystemMonitor CONFIG)"
    using cpu_fall_through [OF disjI1 [OF net(1)] net(2-5), of "SystemMonitor CONFIG"]
    unfolding lower_net
    by (simp add: memory_queries_def process_queries_def disk_queries_def network_queries_def)
  ultimately show ?thesis
    using fast net by blast
qed

lemma lower_usage_query:
  "toLowerCase ''What is my current CPU usage?'' = ''what is my current cpu usage?''"
  by code_simp

lemma digits_723: "digits 723 = ''723''"
  by (simp add: digits.simps digit_char_def)

lemma toFixed_72_3:
  assumes "72.25 \<le> x" and "x < 72.35"
  shows "toFixed x 1 = ''72.3''"
proof -
  have "\<lfloor>x * 10 + 1 / 2\<rfloor> = 723"
    using assms by (simp add: floor_eq_iff)
  moreover have "\<not> x < 0" "\<not> 10 ^ 21 \<le> x" using assms by simp_all
  ultimately show ?thesis
    by (simp add: toFixed_def Let_def digits_723)
qed

lemma decimal_places_numeral:
  "decimal_places (numeral v) y =
     (if real_of_int \<lfloor>y\<rfloor> = y then 0 else Suc (decimal_places (pred_numeral v) (y * 10)))"
  by (simp add: numeral_eq_Suc)

lemma Number_toString_8: "Number_toString 8 = ''8''"
  by (simp add: Number_toString_def toString_positive_def Let_def digits.simps digit_char_def
      decimal_places_numeral)

lemma Number_toString_3_5: "Number_toString 3.5 = ''3.5''"
  by (simp add: Number_toString_def toString_positive_def Let_def digits.simps digit_char_def
      decimal_places_numeral)

lemma Number_toString_7230: "Number_toString 7230 = ''7230''"
  by (simp add: Number_toString_def toString_positive_def Let_def digits.simps digit_char_def
      decimal_places_numeral)

text \<open>
  Claim C8. For a snapshot with \<open>cpu.usage = 72.3\<close>, 8 cores and 3.5 GHz, the response
  to \<open>What is my current CPU usage?\<close> is the CPU status text and contains \<open>72.3%\<close>,
  \<open>8 logical processors\<close>, \<open>3.5 GHz\<close> and the high-usage clause, not the normal-usage
  clause.
\<close>

theorem current_cpu_usage_answer:
  assumes "cpu_usage (cpu sm) = 72.3" and "cpu_cores (cpu sm) = 8"
    and "cpu_frequency (cpu sm) = 3.5"
  shows "generateResponse sm ''What is my current CPU usage?'' = cpu_status_response sm \<and>
    js_includes (generateResponse sm ''What is my current CPU usage?'') ''72.3%'' \<and>
    js_includes (generateResponse sm ''What is my current CPU usage?'') ''8 logical processors'' \<and>
    js_includes (generateResponse sm ''What is my current CPU usage?'') ''3.5 GHz'' \<and>
    js_includes (generateResponse sm ''What is my current CPU usage?'')
      (U_26A0 @ U_FE0F @ '' CPU usage is high. '') \<and>
    \<not> js_includes (generateResponse sm ''What is my current CPU usage?'') ''CPU usage is normal''"
proof -
  have r: "generateResponse sm ''What is my current CPU usage?'' = cpu_status_response sm"
    by (simp add: generateResponse_def lower_usage_query getMetrics_def cpu_queries_def)
  have usage: "toFixed (cpu_usage (cpu sm)) 1 = ''72.3''"
    using assms(1) by (intro toFixed_72_3) simp_all
  have switches: "Number_toString (real_of_int (getContextSwitches sm)) = ''7230''"
    using Number_toString_7230 by (simp add: getContextSwitches_def assms(1))
  have high: "cpu_usage (cpu sm) > 70"
    using assms(1) by simp
  show ?thesis
    unfolding r cpu_status_response_def usage switches assms(2,3)
      Number_toString_8 Number_toString_3_5
    by (simp add: high U_1F50D_def U_2022_def U_26A0_def U_FE0F_def)
qed

theorem current_cpu_usage_answer_witness:
  "cpu_usage (cpu busy_snapshot) = 72.3 \<and> cpu_cores (cpu busy_snapshot) = 8 \<and>
   cpu_frequency (cpu busy_snapshot) = 3.5 \<and>
   js_includes (generateResponse busy_snapshot ''What is my current CPU usage?'') ''72.3%'' \<and>
   js_includes (generateResponse busy_snapshot ''What is my current CPU usage?'')
     ''8 logical processors'' \<and>
   js_includes (generateResponse busy_snapshot ''What is my current CPU usage?'') ''3.5 GHz'' \<and>
   js_includes (generateResponse busy_snapshot ''What is my current CPU usage?'')
     (U_26A0 @ U_FE0F @ '' CPU usage is high. '')"
proof -
  have h: "cpu_usage (cpu busy_snapshot) = 72.3" "cpu_cores (cpu busy_snapshot) = 8"
    "cpu_frequency (cpu busy_snapshot) = 3.5"
    by (simp_all add: busy_snapshot_def)
  from current_cpu_usage_answer [OF h] h show ?thesis by blast
qed

end
